theory Spec2Isabelle
  imports Main "HOL-Library.AList"
begin

section \<open>Python strings\<close>

text \<open>
  Strings are character lists. \<open>str_split sep s\<close> is \<^verbatim>\<open>s.split(sep)\<close> for a
  one-character separator: it never returns the empty list, and the empty string splits
  into one empty part. \<open>str_join sep ps\<close> is \<^verbatim>\<open>sep.join(ps)\<close>, and
  \<open>str_strip\<close> is \<^verbatim>\<open>s.strip()\<close> on the whitespace of the Latin-1 range.
\<close>

fun str_split :: "char \<Rightarrow> string \<Rightarrow> string list" where
  "str_split sep [] = [[]]"
| "str_split sep (c # cs) =
     (if c = sep then [] # str_split sep cs
      else (case str_split sep cs of
              [] \<Rightarrow> [[c]]
            | p # ps \<Rightarrow> (c # p) # ps))"

fun str_join :: "string \<Rightarrow> string list \<Rightarrow> string" where
  "str_join sep [] = []"
| "str_join sep [p] = p"
| "str_join sep (p # q # ps) = p @ sep @ str_join sep (q # ps)"

definition is_space :: "char \<Rightarrow> bool" where
  "is_space c =
     (let n = of_char c :: nat
      in (9 \<le> n \<and> n \<le> 13) \<or> (28 \<le> n \<and> n \<le> 32) \<or> n = 133 \<or> n = 160)"

definition str_strip :: "string \<Rightarrow> string" where
  "str_strip s = rev (dropWhile is_space (rev (dropWhile is_space s)))"

section \<open>Route53 data, as the client returns it\<close>

text \<open>
  Every response is a dictionary read with \<^verbatim>\<open>.get(key, default)\<close>; a field that may
  be missing is an option, and the default of the source is applied where the source
  applies it.
\<close>

record zone_config =
  cfg_PrivateZone :: "bool option"

record hosted_zone =
  hz_Id :: "string option"
  hz_Name :: "string option"
  hz_Config :: "zone_config option"

record zone_vpc =
  zv_VPCId :: "string option"

record change_request =
  cr_HostedZoneId :: string
  cr_Action :: string
  cr_Name :: string
  cr_Type :: string
  cr_TTL :: nat
  cr_Value :: string

text \<open>
  The Route53 client: \<open>list_hosted_zones\<close> is the \<^verbatim>\<open>HostedZones\<close> entry of the
  listing, \<open>get_hosted_zone i\<close> the \<^verbatim>\<open>VPCs\<close> entry of the zone \<open>i\<close>, and
  \<open>change_resource_record_sets q\<close> tells whether the submission \<open>q\<close> succeeds
  (\<open>False\<close>: the call raises).
\<close>

record route53 =
  list_hosted_zones :: "hosted_zone list option"
  get_hosted_zone :: "string \<Rightarrow> zone_vpc list option"
  change_resource_record_sets :: "change_request \<Rightarrow> bool"

datatype error =
    Exception string
  | AttributeError string
  | IndexError string
  | ParamValidationError string
  | ClientError string

section \<open>Zone lookup (route53\_helpers.py)\<close>

text \<open>\<^verbatim>\<open>config = zone.get("Config", {}); config.get("PrivateZone", False)\<close>\<close>

definition private_flag :: "hosted_zone \<Rightarrow> bool" where
  "private_flag z =
     (case hz_Config z of
        None \<Rightarrow> False
      | Some c \<Rightarrow> (case cfg_PrivateZone c of None \<Rightarrow> False | Some b \<Rightarrow> b))"

text \<open>
  The \<^verbatim>\<open>for zone in hosted_zones\<close> loop of \<^verbatim>\<open>get_public_zone_id\<close>:
  \<open>Some r\<close> when the loop returns \<open>r\<close> (the zone's \<^verbatim>\<open>Id\<close>, which may itself be
  missing), \<open>None\<close> when it falls through.
\<close>

fun public_zone_for :: "hosted_zone list \<Rightarrow> string \<Rightarrow> string option option" where
  "public_zone_for [] check_zone = None"
| "public_zone_for (z # zs) check_zone =
     (if \<not> private_flag z \<and> hz_Name z = Some check_zone then Some (hz_Id z)
      else public_zone_for zs check_zone)"

text \<open>The \<^verbatim>\<open>while len(zone_parts) >= 2\<close> loop; \<^verbatim>\<open>zone_parts.pop(0)\<close> is \<open>tl\<close>.\<close>

function public_zone_while :: "hosted_zone list \<Rightarrow> string list \<Rightarrow> string option" where
  "public_zone_while hosted_zones zone_parts =
     (if 2 \<le> length zone_parts then
        (case public_zone_for hosted_zones (str_join ''.'' zone_parts @ ''.'') of
           Some r \<Rightarrow> r
         | None \<Rightarrow> public_zone_while hosted_zones (tl zone_parts))
      else None)"
  by pat_completeness auto
termination
  by (relation "measure (\<lambda>(hosted_zones, zone_parts). length zone_parts)") auto

declare public_zone_while.simps [simp del]

definition get_public_zone_id :: "route53 \<Rightarrow> string option \<Rightarrow> string option" where
  "get_public_zone_id r53 zone_name =
     (case zone_name of
        None \<Rightarrow> None
      | Some zn \<Rightarrow>
          if zn = '''' then None
          else
            let hosted_zones = (case list_hosted_zones r53 of None \<Rightarrow> [] | Some zs \<Rightarrow> zs);
                zone_parts = str_split CHR ''.'' zn
            in public_zone_while hosted_zones zone_parts)"

text \<open>The \<^verbatim>\<open>for vpc in zone_vpcs\<close> loop: \<open>True\<close> when it returns.\<close>

fun vpc_for :: "zone_vpc list \<Rightarrow> string \<Rightarrow> bool" where
  "vpc_for [] vpc_id = False"
| "vpc_for (vpc # vpcs) vpc_id =
     (if zv_VPCId vpc = Some vpc_id then True else vpc_for vpcs vpc_id)"

text \<open>
  The \<^verbatim>\<open>for zone in hosted_zones\<close> loop of \<^verbatim>\<open>get_private_zone_id\<close>. The
  attachment query is made with \<^verbatim>\<open>Id=zone.get("Id", None)\<close>; the client rejects a
  missing identifier before sending anything.
\<close>

fun private_zone_for ::
  "route53 \<Rightarrow> string \<Rightarrow> hosted_zone list \<Rightarrow> string \<Rightarrow> error + string option" where
  "private_zone_for r53 vpc_id [] check_zone = Inr None"
| "private_zone_for r53 vpc_id (z # zs) check_zone =
     (if private_flag z \<and> hz_Name z = Some check_zone then
        (case hz_Id z of
           None \<Rightarrow> Inl (ParamValidationError ''Id'')
         | Some zone_id \<Rightarrow>
             let zone_vpcs = (case get_hosted_zone r53 zone_id of None \<Rightarrow> [] | Some vs \<Rightarrow> vs)
             in if vpc_for zone_vpcs vpc_id then Inr (Some zone_id)
                else private_zone_for r53 vpc_id zs check_zone)
      else private_zone_for r53 vpc_id zs check_zone)"

function private_zone_while ::
  "route53 \<Rightarrow> string \<Rightarrow> hosted_zone list \<Rightarrow> string list \<Rightarrow> error + string option" where
  "private_zone_while r53 vpc_id hosted_zones zone_parts =
     (if 2 \<le> length zone_parts then
        (case private_zone_for r53 vpc_id hosted_zones (str_join ''.'' zone_parts @ ''.'') of
           Inl e \<Rightarrow> Inl e
         | Inr (Some zone_id) \<Rightarrow> Inr (Some zone_id)
         | Inr None \<Rightarrow> private_zone_while r53 vpc_id hosted_zones (tl zone_parts))
      else Inr None)"
  by pat_completeness auto
termination
  by (relation "measure (\<lambda>(r53, vpc_id, hosted_zones, zone_parts). length zone_parts)") auto

declare private_zone_while.simps [simp del]

text \<open>
  The second guard compares the zone name with the literal \<^verbatim>\<open>"{}.compute.internal"\<close>,
  braces included: the source does not format the region into it.
\<close>

definition get_private_zone_id ::
  "route53 \<Rightarrow> string \<Rightarrow> string \<Rightarrow> string option \<Rightarrow> error + string option" where
  "get_private_zone_id r53 vpc_id region zone_name =
     (case zone_name of
        None \<Rightarrow> Inr None
      | Some zn \<Rightarrow>
          if zn = '''' then Inr None
          else if zn = ''{}.compute.internal'' then Inr None
          else
            let hosted_zones = (case list_hosted_zones r53 of None \<Rightarrow> [] | Some zs \<Rightarrow> zs);
                zone_parts = str_split CHR ''.'' zn
            in private_zone_while r53 vpc_id hosted_zones zone_parts)"

section \<open>Settings and tags (helpers.py)\<close>

text \<open>
  The log keeps the records of level warning and above, each with its level and its
  message template (the arguments formatted into a message are not modelled, and
  the quotation marks inside a template are left out); \<^verbatim>\<open>log.info\<close> records
  are left out.
\<close>

datatype level = WARN | ERROR | FATAL

type_synonym log_entry = "level \<times> string"

text \<open>
  The keys of the \<^verbatim>\<open>defaults\<close> table. \<^verbatim>\<open>get_setting\<close> is only ever called with
  one of these literal keys, so the table is a pair of total functions on them and
  \<open>environ\<close> is \<^verbatim>\<open>os.environ\<close>.
\<close>

datatype setting =
    Dynamo_table_name
  | Account_state_tag
  | Account_enabled_values
  | Iam_role_tag
  | Default_iam_role
  | Hostname_tag_name_account_tag
  | Default_hostname_tag_name
  | Dns_domain_tag_name_account_tag
  | Default_dns_domain_tag_name
  | Aliases_tag_name_account_tag
  | Default_aliases_tag_name

fun env_var :: "setting \<Rightarrow> string" where
  "env_var Dynamo_table_name = ''DYNAMO_TABLE_NAME''"
| "env_var Account_state_tag = ''ACCOUNT_STATE_TAG''"
| "env_var Account_enabled_values = ''ACCOUNT_ENABLED_VALUES''"
| "env_var Iam_role_tag = ''IAM_ROLE_TAG''"
| "env_var Default_iam_role = ''DEFAULT_IAM_ROLE''"
| "env_var Hostname_tag_name_account_tag = ''HOSTNAME_TAG_NAME_ACCOUNT_TAG''"
| "env_var Default_hostname_tag_name = ''DEFAULT_HOSTNAME_TAG_NAME''"
| "env_var Dns_domain_tag_name_account_tag = ''DNS_DOMAIN_TAG_NAME_ACCOUNT_TAG''"
| "env_var Default_dns_domain_tag_name = ''DEFAULT_DNS_DOMAIN_TAG_NAME''"
| "env_var Aliases_tag_name_account_tag = ''ALIASES_TAG_NAME_ACCOUNT_TAG''"
| "env_var Default_aliases_tag_name = ''DEFAULT_ALIASES_TAG_NAME''"

fun default_of :: "setting \<Rightarrow> string" where
  "default_of Dynamo_table_name = ''update-route53-host-records''"
| "default_of Account_state_tag =
     ''fn.aws.joshhogle.com/update-route53-host-records/account/state''"
| "default_of Account_enabled_values = ''enabled''"
| "default_of Iam_role_tag = ''fn.aws.joshhogle.com/update-route53-host-records/iam/role''"
| "default_of Default_iam_role = ''STS-UpdateRoute53HostRecords''"
| "default_of Hostname_tag_name_account_tag =
     ''fn.aws.joshhogle.com/update-route53-host-records/tags/hostname''"
| "default_of Default_hostname_tag_name =
     ''fn.aws.joshhogle.com/update-route53-host-records/hostname''"
| "default_of Dns_domain_tag_name_account_tag =
     ''fn.aws.joshhogle.com/update-route53-host-records/tags/dns_domain''"
| "default_of Default_dns_domain_tag_name =
     ''fn.aws.joshhogle.com/update-route53-host-records/dns_domain''"
| "default_of Aliases_tag_name_account_tag =
     ''fn.aws.joshhogle.com/update-route53-host-records/tags/aliases''"
| "default_of Default_aliases_tag_name =
     ''fn.aws.joshhogle.com/update-route53-host-records/aliases''"

type_synonym environ = "string \<rightharpoonup> string"

definition get_setting :: "environ \<Rightarrow> setting \<Rightarrow> string" where
  "get_setting env s = (case env (env_var s) of None \<Rightarrow> default_of s | Some v \<Rightarrow> v)"

text \<open>
  A raw tag is a dictionary that may hold \<^verbatim>\<open>Key\<close>, \<^verbatim>\<open>Value\<close> and
  \<^verbatim>\<open>Values\<close>. The source stores whatever object it finds, so the type \<open>'v\<close> of the
  stored objects is a parameter: \<open>string\<close> for the tags of an EC2 instance, which carry
  \<^verbatim>\<open>Value\<close> only, and \<open>tag_value\<close> where a tag may carry a list under
  \<^verbatim>\<open>Values\<close>.
\<close>

record 'v raw_tag =
  tag_Key :: "string option"
  tag_Value :: "'v option"
  tag_Values :: "'v option"

datatype tag_value = Str string | StrList "string list"

text \<open>One turn of the loop of \<^verbatim>\<open>tags_to_dict\<close>, on the dictionary built so far.\<close>

definition tags_to_dict_step :: "'v raw_tag \<Rightarrow> (string \<rightharpoonup> 'v) \<Rightarrow> (string \<rightharpoonup> 'v)" where
  "tags_to_dict_step t result =
     (case tag_Key t of
        None \<Rightarrow> result
      | Some key \<Rightarrow>
          (case (case tag_Values t of Some vs \<Rightarrow> Some vs | None \<Rightarrow> tag_Value t) of
             None \<Rightarrow> result
           | Some values \<Rightarrow> result(key \<mapsto> values)))"

definition tags_to_dict :: "'v raw_tag list \<Rightarrow> (string \<rightharpoonup> 'v)" where
  "tags_to_dict tags = fold tags_to_dict_step tags Map.empty"

section \<open>Hostname and domain (ec2\_helpers.py)\<close>

record attribute_value =
  av_Value :: "string option"

record dhcp_configuration =
  dc_Key :: "string option"
  dc_Values :: "attribute_value list option"

record dhcp_options =
  do_DhcpConfigurations :: "dhcp_configuration list option"

record vpc =
  vpc_DhcpOptionsId :: "string option"

record ec2_instance =
  PublicIpAddress :: "string option"
  PrivateIpAddress :: "string option"
  VpcId :: "string option"
  Tags :: "string raw_tag list option"

record reservation =
  Instances :: "ec2_instance list option"

text \<open>
  The EC2 client, each call by the identifier it is made with: the \<^verbatim>\<open>Vpcs\<close>,
  \<^verbatim>\<open>DhcpOptions\<close> and \<^verbatim>\<open>Reservations\<close> entries of the responses. The two
  calls of \<^verbatim>\<open>ec2_helpers.py\<close> are made with no \<^verbatim>\<open>try\<close> around them, so a
  call that fails (\<open>Inl\<close>) raises out of the resolver.
\<close>

record ec2 =
  describe_vpcs :: "string \<Rightarrow> error + vpc list option"
  describe_dhcp_options :: "string \<Rightarrow> error + dhcp_options list option"
  describe_instances :: "string \<Rightarrow> reservation list option"

text \<open>
  The \<^verbatim>\<open>for config in dhcp_configs\<close> loop: \<open>Some r\<close> when it returns \<open>r\<close>
  (the \<^verbatim>\<open>Value\<close> of the only value, which may be missing).
\<close>

fun domain_name_for :: "dhcp_configuration list \<Rightarrow> string option option" where
  "domain_name_for [] = None"
| "domain_name_for (config # configs) =
     (if dc_Key config = Some ''domain-name'' then
        (let values = (case dc_Values config of None \<Rightarrow> [] | Some vs \<Rightarrow> vs)
         in if length values = 1 then Some (av_Value (hd values))
            else domain_name_for configs)
      else domain_name_for configs)"

definition get_dhcp_options_domain ::
  "ec2 \<Rightarrow> string \<Rightarrow> (error + string option) \<times> log_entry list" where
  "get_dhcp_options_domain ec2_client vpc_id =
     (case describe_vpcs ec2_client vpc_id of
        Inl e \<Rightarrow> (Inl e, [])
      | Inr response \<Rightarrow>
          (let vpcs = (case response of None \<Rightarrow> [] | Some vs \<Rightarrow> vs)
           in if length vpcs \<noteq> 1 then
                (Inr None, [(ERROR, ''describe_vpcs returned {} VPCs instead of expected 1'')])
              else
                (case vpc_DhcpOptionsId (hd vpcs) of
                   None \<Rightarrow> (Inr None, [(ERROR, ''vpc is missing DhcpOptionsId'')])
                 | Some dhcp_options_id \<Rightarrow>
                     (case describe_dhcp_options ec2_client dhcp_options_id of
                        Inl e \<Rightarrow> (Inl e, [])
                      | Inr response' \<Rightarrow>
                          (let dhcp_opts = (case response' of None \<Rightarrow> [] | Some os \<Rightarrow> os)
                           in if length dhcp_opts \<noteq> 1 then
                                (Inr None,
                                 [(ERROR,
                                   ''describe_dhcp_options returned {} options instead of expected 1'')])
                              else
                                (let dhcp_configs =
                                       (case do_DhcpConfigurations (hd dhcp_opts) of
                                          None \<Rightarrow> [] | Some cs \<Rightarrow> cs)
                                 in (case domain_name_for dhcp_configs of
                                       Some r \<Rightarrow> (Inr r, [])
                                     | None \<Rightarrow> (Inr None, []))))))))"

definition get_dns_domain ::
  "environ \<Rightarrow> ec2 \<Rightarrow> string \<Rightarrow> string \<Rightarrow> (string \<rightharpoonup> string) \<Rightarrow>
   (error + string) \<times> log_entry list" where
  "get_dns_domain env ec2_client vpc_id region tags =
     (let dns_domain_tag =
            (case tags (get_setting env Dns_domain_tag_name_account_tag) of
               None \<Rightarrow> get_setting env Default_dns_domain_tag_name
             | Some t \<Rightarrow> t)
      in (case tags dns_domain_tag of
            Some dns_domain \<Rightarrow> (Inr dns_domain, [])
          | None \<Rightarrow>
              (let dns_domain = region @ ''.compute.internal''
               in (case get_dhcp_options_domain ec2_client vpc_id of
                     (Inl e, lg) \<Rightarrow> (Inl e, lg)
                   | (Inr dhcp_options_domain, lg) \<Rightarrow>
                       (Inr (case dhcp_options_domain of Some d \<Rightarrow> d | None \<Rightarrow> dns_domain),
                        lg)))))"

definition get_hostname :: "environ \<Rightarrow> (string \<rightharpoonup> string) \<Rightarrow> string option" where
  "get_hostname env tags =
     (let hostname_tag =
            (case tags (get_setting env Hostname_tag_name_account_tag) of
               None \<Rightarrow> get_setting env Default_hostname_tag_name
             | Some t \<Rightarrow> t)
      in case tags hostname_tag of
           None \<Rightarrow> tags ''Name''
         | Some hostname \<Rightarrow> Some hostname)"

section \<open>Aliases and registration (route53\_helpers.py)\<close>

text \<open>
  The same seven lines stand in \<^verbatim>\<open>get_aliases\<close> (lines 43 to 50) and in
  \<^verbatim>\<open>register_host\<close> (lines 191 to 198): they split the raw hostname at the dots and
  give the hostname, the DNS domain and the FQDN. The second argument is the domain used
  for a hostname without a dot. In the other branch \<^verbatim>\<open>hostname\<close> is assigned
  \<^verbatim>\<open>parts[0]\<close> first and \<^verbatim>\<open>fqdn = hostname\<close> is assigned after it.
\<close>

definition identity_of :: "string \<Rightarrow> string \<Rightarrow> string \<times> string \<times> string" where
  "identity_of hostname default_dns_domain =
     (let parts = str_split CHR ''.'' hostname
      in if length parts = 1 then
           (let dns_domain = default_dns_domain;
                fqdn = hostname @ ''.'' @ dns_domain
            in (hostname, dns_domain, fqdn))
         else
           (let hostname' = hd parts;
                dns_domain = str_join ''.'' (tl parts);
                fqdn = hostname'
            in (hostname', dns_domain, fqdn)))"

record alias_settings =
  as_hostname :: string
  as_dns_domain :: string
  as_fqdn :: string
  as_zone_id :: "string option"

text \<open>
  The loop of \<^verbatim>\<open>get_aliases\<close> over the stripped alias tokens. \<open>settings\<close> is
  the dictionary built so far, in insertion order; a zone lookup that raises ends the
  loop.
\<close>

fun get_aliases_for ::
  "route53 \<Rightarrow> string \<Rightarrow> string \<Rightarrow> (string \<rightharpoonup> string) \<Rightarrow> string \<Rightarrow> string \<Rightarrow> string \<Rightarrow>
   string list \<Rightarrow> (string \<times> alias_settings) list \<Rightarrow> log_entry list \<Rightarrow>
   (error + (string \<times> alias_settings) list) \<times> log_entry list" where
  "get_aliases_for r53 vpc_id region tags aliases_tag alias_type default_dns_domain
     [] settings lg = (Inr settings, lg)"
| "get_aliases_for r53 vpc_id region tags aliases_tag alias_type default_dns_domain
     (alias # rest) settings lg =
     (let tag_base = aliases_tag @ ''/'' @ alias_type @ ''/'' @ alias;
          tagged = tags (tag_base @ ''/hostname'');
          lg' = lg @ (case tagged of
                        None \<Rightarrow> [(WARN, ''   no hostname found for {} alias {} - using alias as hostname'')]
                      | Some h \<Rightarrow> []);
          (hostname, dns_domain, fqdn) =
             identity_of (case tagged of None \<Rightarrow> alias | Some h \<Rightarrow> h) default_dns_domain;
          looked_up =
             (case tags (tag_base @ ''/zone_id'') of
                Some z \<Rightarrow> Inr (Some z)
              | None \<Rightarrow>
                  if alias_type = ''private'' then
                    get_private_zone_id r53 vpc_id region (Some dns_domain)
                  else if alias_type = ''public'' then
                    Inr (get_public_zone_id r53 (Some dns_domain))
                  else Inr None)
      in case looked_up of
           Inl e \<Rightarrow> (Inl e, lg')
         | Inr zone_id \<Rightarrow>
             get_aliases_for r53 vpc_id region tags aliases_tag alias_type default_dns_domain rest
               (AList.update alias
                  \<lparr>as_hostname = hostname, as_dns_domain = dns_domain, as_fqdn = fqdn,
                   as_zone_id = zone_id\<rparr> settings)
               lg')"

text \<open>
  \<^verbatim>\<open>aliases = tags.get(key, [])\<close> followed by \<^verbatim>\<open>aliases.split(",")\<close>: without
  the tag, \<^verbatim>\<open>aliases\<close> is the empty list, which has no \<^verbatim>\<open>split\<close>.
\<close>

definition get_aliases ::
  "route53 \<Rightarrow> string \<Rightarrow> string \<Rightarrow> (string \<rightharpoonup> string) \<Rightarrow> string \<Rightarrow> string \<Rightarrow> string \<Rightarrow>
   (error + (string \<times> alias_settings) list) \<times> log_entry list" where
  "get_aliases r53 vpc_id region tags aliases_tag alias_type default_dns_domain =
     (case tags (aliases_tag @ ''/'' @ alias_type) of
        None \<Rightarrow> (Inl (AttributeError ''list object has no attribute split''), [])
      | Some aliases \<Rightarrow>
          get_aliases_for r53 vpc_id region tags aliases_tag alias_type default_dns_domain
            (map str_strip (str_split CHR '','' aliases)) [] [])"

record dns_record =
  rec_zone_id :: string
  rec_type :: string
  rec_name :: string
  rec_data :: string

text \<open>
  What a run of \<^verbatim>\<open>register_host\<close> has done so far: the local list
  \<^verbatim>\<open>records\<close>, the submissions made to the DNS service, and the log.
\<close>

record run =
  records :: "dns_record list"
  submitted :: "change_request list"
  logged :: "log_entry list"

text \<open>The submission is made inside \<^verbatim>\<open>try\<close>; a failure is logged and swallowed.\<close>

definition change_record ::
  "string \<Rightarrow> route53 \<Rightarrow> string \<Rightarrow> string \<Rightarrow> string \<Rightarrow> string \<Rightarrow> run \<Rightarrow> run" where
  "change_record action r53 zone_id record_type record_name record_data st =
     (let q = \<lparr>cr_HostedZoneId = zone_id, cr_Action = action, cr_Name = record_name @ ''.'',
               cr_Type = record_type, cr_TTL = 300, cr_Value = record_data\<rparr>
      in st\<lparr>submitted := submitted st @ [q],
            logged := logged st @
              (if change_resource_record_sets r53 q then []
               else [(ERROR, ''{} failed for {} record {} -> {}: {}'')])\<rparr>)"

text \<open>\<^verbatim>\<open>records.append({...})\<close> followed by \<^verbatim>\<open>change_record("UPSERT", ...)\<close>.\<close>

definition append_and_upsert ::
  "route53 \<Rightarrow> string \<Rightarrow> string \<Rightarrow> string \<Rightarrow> string \<Rightarrow> run \<Rightarrow> run" where
  "append_and_upsert r53 zone_id record_type record_name record_data st =
     change_record ''UPSERT'' r53 zone_id record_type record_name record_data
       (st\<lparr>records := records st @
              [\<lparr>rec_zone_id = zone_id, rec_type = record_type, rec_name = record_name,
                rec_data = record_data\<rparr>]\<rparr>)"

text \<open>The \<^verbatim>\<open>for alias, settings in aliases.items()\<close> loops, on the address \<open>ip\<close>.\<close>

fun register_aliases ::
  "route53 \<Rightarrow> string \<Rightarrow> (string \<times> alias_settings) list \<Rightarrow> run \<Rightarrow> run" where
  "register_aliases r53 ip [] st = st"
| "register_aliases r53 ip ((alias, settings) # rest) st =
     (case as_zone_id settings of
        None \<Rightarrow> register_aliases r53 ip rest st
      | Some zone_id \<Rightarrow>
          register_aliases r53 ip rest
            (append_and_upsert r53 zone_id ''A'' (as_fqdn settings) ip st))"

text \<open>
  \<^verbatim>\<open>register_host\<close> returns either the list \<^verbatim>\<open>records\<close> or the integer
  \<^verbatim>\<open>0\<close>.
\<close>

datatype pyret = RecordList "dns_record list" | IntResult int

text \<open>
  Lines 202 to 206: the PTR name and the reverse zone name from the parts of the private
  address; \<^verbatim>\<open>octets[3]\<close> raises on fewer than four parts.
\<close>

definition ptr_names :: "string \<Rightarrow> error + string \<times> string" where
  "ptr_names private_ip =
     (let octets = str_split CHR ''.'' private_ip
      in if length octets < 4 then Inl (IndexError ''list index out of range'')
         else
           let ptr_record = octets ! 3 @ ''.'' @ octets ! 2 @ ''.'' @ octets ! 1 @ ''.''
                              @ octets ! 0 @ ''.in-addr.arpa'';
               arpa_zone = octets ! 2 @ ''.'' @ octets ! 1 @ ''.'' @ octets ! 0 @ ''.in-addr.arpa''
           in Inr (ptr_record, arpa_zone))"

text \<open>Lines 208 to 280 of \<^verbatim>\<open>register_host\<close>: the records, in the order of the source.\<close>

definition register_host_records ::
  "environ \<Rightarrow> route53 \<Rightarrow> string \<Rightarrow> string \<Rightarrow> (string \<rightharpoonup> string) \<Rightarrow> string option \<Rightarrow> string \<Rightarrow>
   string \<Rightarrow> string \<Rightarrow> string \<Rightarrow> string \<Rightarrow> run \<Rightarrow> (error + pyret) \<times> run" where
  "register_host_records env r53 vpc_id region instance_tags public_ip private_ip
     dns_domain fqdn ptr_record arpa_zone st0 =
     (case get_private_zone_id r53 vpc_id region (Some dns_domain) of
        Inl e \<Rightarrow> (Inl e, st0)
      | Inr private_zone_id \<Rightarrow>
          (let st1 = (case private_zone_id of
                        None \<Rightarrow> st0
                      | Some z \<Rightarrow> append_and_upsert r53 z ''A'' fqdn private_ip st0);
               aliases_tag =
                 (case instance_tags (get_setting env Aliases_tag_name_account_tag) of
                    None \<Rightarrow> get_setting env Default_aliases_tag_name
                  | Some t \<Rightarrow> t)
           in (case get_aliases r53 vpc_id region instance_tags aliases_tag ''private''
                       dns_domain of
                 (Inl e, lg) \<Rightarrow> (Inl e, st1\<lparr>logged := logged st1 @ lg\<rparr>)
               | (Inr aliases, lg) \<Rightarrow>
                   (let st2 = register_aliases r53 private_ip aliases
                                (st1\<lparr>logged := logged st1 @ lg\<rparr>)
                    in (case get_private_zone_id r53 vpc_id region (Some arpa_zone) of
                          Inl e \<Rightarrow> (Inl e, st2)
                        | Inr arpa_zone_id \<Rightarrow>
                            (let st3 =
                                   (case arpa_zone_id of
                                      None \<Rightarrow> st2
                                    | Some z \<Rightarrow>
                                        append_and_upsert r53 z ''PTR'' ptr_record
                                          (fqdn @ ''.'') st2)
                             in (case public_ip of
                                   None \<Rightarrow> (Inr (IntResult 0), st3)
                                 | Some pip \<Rightarrow>
                                     (case get_aliases r53 vpc_id region instance_tags
                                             aliases_tag ''public'' dns_domain of
                                        (Inl e, lg) \<Rightarrow>
                                          (Inl e, st3\<lparr>logged := logged st3 @ lg\<rparr>)
                                      | (Inr aliases, lg) \<Rightarrow>
                                          (Inr (IntResult 0),
                                           register_aliases r53 pip aliases
                                             (st3\<lparr>logged := logged st3 @ lg\<rparr>))))))))))"

text \<open>
  Lines 186 to 206: the tags, the hostname and the names. The domain resolver is called
  only for a hostname without a dot, and so are its logging and its raising; for a dotted
  hostname the default domain is not read.
\<close>

definition register_host_instance ::
  "environ \<Rightarrow> ec2 \<Rightarrow> route53 \<Rightarrow> string \<Rightarrow> ec2_instance \<Rightarrow> string option \<Rightarrow> string \<Rightarrow> string \<Rightarrow>
   (error + pyret) \<times> run" where
  "register_host_instance env ec2_client r53 region inst public_ip private_ip vpc_id =
     (let instance_tags = tags_to_dict (case Tags inst of None \<Rightarrow> [] | Some ts \<Rightarrow> ts)
      in (case get_hostname env instance_tags of
            None \<Rightarrow>
              (Inr (RecordList []),
               \<lparr>records = [], submitted = [],
                logged = [(WARN, ''no hostname is defined for the instance - skipping registration'')]\<rparr>)
          | Some hostname \<Rightarrow>
              (let bare = (length (str_split CHR ''.'' hostname) = 1);
                   resolved = (if bare
                               then get_dns_domain env ec2_client vpc_id region instance_tags
                               else (Inr [], []))
               in (case resolved of
                     (Inl e, lg) \<Rightarrow> (Inl e, \<lparr>records = [], submitted = [], logged = lg\<rparr>)
                   | (Inr default_dns_domain, lg) \<Rightarrow>
                       (let (hostname', dns_domain, fqdn) =
                              identity_of hostname default_dns_domain;
                            st0 = \<lparr>records = [], submitted = [], logged = lg\<rparr>
                        in (case ptr_names private_ip of
                              Inl e \<Rightarrow> (Inl e, st0)
                            | Inr (ptr_record, arpa_zone) \<Rightarrow>
                                register_host_records env r53 vpc_id region instance_tags
                                  public_ip private_ip dns_domain fqdn ptr_record arpa_zone
                                  st0))))))"

text \<open>
  \<^verbatim>\<open>register_host\<close>, from line 151: the instance is fetched and checked first.
  \<open>r53\<close> is the module's global Route53 client and \<open>env\<close> the process environment.
  \<^verbatim>\<open>public_ip is ""\<close> is read as a comparison with the empty string.
\<close>

definition register_host ::
  "environ \<Rightarrow> route53 \<Rightarrow> ec2 \<Rightarrow> string \<Rightarrow> string \<Rightarrow> (error + pyret) \<times> run" where
  "register_host env r53 ec2_client region instance_id =
     (let fatal = (\<lambda>msg. (Inl (Exception msg),
                          \<lparr>records = [], submitted = [], logged = [(FATAL, msg)]\<rparr>));
          reservations = (case describe_instances ec2_client instance_id of
                            None \<Rightarrow> [] | Some rs \<Rightarrow> rs)
      in if length reservations \<noteq> 1 then
           fatal ''unexpected result when retrieving instance data: {}''
         else
           let instances = (case Instances (hd reservations) of None \<Rightarrow> [] | Some is \<Rightarrow> is)
           in if length instances \<noteq> 1 then
                fatal ''unexpected result when retrieving instance data: {}''
              else
                let inst = hd instances;
                    public_ip = (case PublicIpAddress inst of
                                   None \<Rightarrow> None
                                 | Some a \<Rightarrow> if a = [] then None else Some a);
                    private_ip = (case PrivateIpAddress inst of None \<Rightarrow> [] | Some a \<Rightarrow> a)
                in if private_ip = [] then fatal ''instance is missing private IP: {}''
                   else
                     let vpc_id = (case VpcId inst of None \<Rightarrow> [] | Some v \<Rightarrow> v)
                     in if vpc_id = [] then fatal ''instance is missing VPC ID: {}''
                        else register_host_instance env ec2_client r53 region inst
                               public_ip private_ip vpc_id)"

section \<open>Reference definitions\<close>

text \<open>
  The candidate zone names as the specification words them: the labels \<open>[i:]\<close> joined
  with dots plus a trailing dot, from the full name on, as long as two labels remain.
\<close>

definition zone_candidates :: "string \<Rightarrow> string list" where
  "zone_candidates fqdn =
     (let labels = str_split CHR ''.'' fqdn
      in map (\<lambda>i. str_join ''.'' (drop i labels) @ ''.'') [0 ..< length labels - 1])"

definition hosted :: "route53 \<Rightarrow> hosted_zone list" where
  "hosted r53 = (case list_hosted_zones r53 of None \<Rightarrow> [] | Some zs \<Rightarrow> zs)"

text \<open>
  Longest suffix first, as the specification words it: the first candidate that some
  public zone is named by decides, and the first such zone of the catalog is taken.
\<close>

fun longest_public_match :: "hosted_zone list \<Rightarrow> string list \<Rightarrow> string option" where
  "longest_public_match zones [] = None"
| "longest_public_match zones (c # cs) =
     (case find (\<lambda>z. \<not> private_flag z \<and> hz_Name z = Some c) zones of
        Some z \<Rightarrow> hz_Id z
      | None \<Rightarrow> longest_public_match zones cs)"

text \<open>A zone is attached to a network when its attachment list names the network.\<close>

definition attached :: "route53 \<Rightarrow> string \<Rightarrow> hosted_zone \<Rightarrow> bool" where
  "attached r53 vpc_id z =
     (case hz_Id z of
        None \<Rightarrow> False
      | Some i \<Rightarrow>
          Some vpc_id \<in> set (map zv_VPCId
            (case get_hosted_zone r53 i of None \<Rightarrow> [] | Some vs \<Rightarrow> vs)))"

fun longest_private_match ::
  "route53 \<Rightarrow> string \<Rightarrow> hosted_zone list \<Rightarrow> string list \<Rightarrow> string option" where
  "longest_private_match r53 vpc_id zones [] = None"
| "longest_private_match r53 vpc_id zones (c # cs) =
     (case find (\<lambda>z. private_flag z \<and> hz_Name z = Some c \<and> attached r53 vpc_id z) zones of
        Some z \<Rightarrow> hz_Id z
      | None \<Rightarrow> longest_private_match r53 vpc_id zones cs)"


definition hostname_tag_of :: "environ \<Rightarrow> (string \<rightharpoonup> string) \<Rightarrow> string" where
  "hostname_tag_of env tags =
     (case tags (get_setting env Hostname_tag_name_account_tag) of
        None \<Rightarrow> get_setting env Default_hostname_tag_name
      | Some t \<Rightarrow> t)"


text \<open>The request that \<^verbatim>\<open>change_record\<close> submits for a PTR upsert.\<close>

definition ptr_upsert :: "string \<Rightarrow> string \<Rightarrow> string \<Rightarrow> change_request" where
  "ptr_upsert zone_id ptr_record fqdn =
     \<lparr>cr_HostedZoneId = zone_id, cr_Action = ''UPSERT'', cr_Name = ptr_record @ ''.'',
      cr_Type = ''PTR'', cr_TTL = 300, cr_Value = fqdn @ ''.''\<rparr>"

fun string_valued :: "tag_value \<Rightarrow> bool" where
  "string_valued (Str s) = True"
| "string_valued (StrList ss) = False"

section \<open>Example inputs\<close>

definition private_zone :: "string \<Rightarrow> string \<Rightarrow> hosted_zone" where
  "private_zone i n =
     \<lparr>hz_Id = Some i, hz_Name = Some n, hz_Config = Some \<lparr>cfg_PrivateZone = Some True\<rparr>\<rparr>"

definition public_zone :: "string \<Rightarrow> string \<Rightarrow> hosted_zone" where
  "public_zone i n =
     \<lparr>hz_Id = Some i, hz_Name = Some n, hz_Config = Some \<lparr>cfg_PrivateZone = Some False\<rparr>\<rparr>"

text \<open>The public catalog \<open>{"b.c.": id1, "a.b.c.": id2}\<close>.\<close>

definition example_public_r53 :: route53 where
  "example_public_r53 =
     \<lparr>list_hosted_zones = Some [public_zone ''id1'' ''b.c.'', public_zone ''id2'' ''a.b.c.''],
      get_hosted_zone = (\<lambda>i. None),
      change_resource_record_sets = (\<lambda>q. True)\<rparr>"

text \<open>
  A private catalog: \<open>Z0\<close> and \<open>Z1\<close> are attached to \<open>vpc-2\<close> only, the other
  zones to \<open>vpc-2\<close> and \<open>vpc-1\<close>. Every submission succeeds.
\<close>

definition example_r53 :: route53 where
  "example_r53 =
     \<lparr>list_hosted_zones =
        Some [private_zone ''Z0'' ''db.corp.internal.'',
              private_zone ''Z1'' ''corp.internal.'',
              private_zone ''Z2'' ''corp.internal.'',
              private_zone ''Z3'' ''compute.internal.'',
              private_zone ''Z4'' ''2.1.10.in-addr.arpa.''],
      get_hosted_zone =
        (\<lambda>i. if i = ''Z0'' \<or> i = ''Z1'' then Some [\<lparr>zv_VPCId = Some ''vpc-2''\<rparr>]
             else Some [\<lparr>zv_VPCId = Some ''vpc-2''\<rparr>, \<lparr>zv_VPCId = Some ''vpc-1''\<rparr>]),
      change_resource_record_sets = (\<lambda>q. True)\<rparr>"

definition ec2_tag :: "string \<Rightarrow> string \<Rightarrow> string raw_tag" where
  "ec2_tag k v = \<lparr>tag_Key = Some k, tag_Value = Some v, tag_Values = None\<rparr>"

text \<open>
  One instance with the given tags, the private address \<open>10.1.2.3\<close> and no public
  address, in the network \<open>vpc-1\<close> whose DHCP options name the domain
  \<open>corp.internal\<close>.
\<close>

definition example_ec2 :: "string raw_tag list \<Rightarrow> ec2" where
  "example_ec2 tags =
     \<lparr>describe_vpcs = (\<lambda>v. Inr (Some [\<lparr>vpc_DhcpOptionsId = Some ''dopt-1''\<rparr>])),
      describe_dhcp_options =
        (\<lambda>d. Inr (Some [\<lparr>do_DhcpConfigurations =
                      Some [\<lparr>dc_Key = Some ''domain-name'',
                             dc_Values = Some [\<lparr>av_Value = Some ''corp.internal''\<rparr>]\<rparr>]\<rparr>])),
      describe_instances =
        (\<lambda>i. Some [\<lparr>Instances =
                      Some [\<lparr>PublicIpAddress = None, PrivateIpAddress = Some ''10.1.2.3'',
                             VpcId = Some ''vpc-1'', Tags = Some tags\<rparr>]\<rparr>])\<rparr>"

section \<open>Properties\<close>

subsection \<open>Splitting at a separator\<close>

lemma str_split_no_sep: "sep \<notin> set a \<Longrightarrow> str_split sep a = [a]"
  by (induction a) auto

lemma str_split_append:
  "sep \<notin> set a \<Longrightarrow> str_split sep (a @ sep # rest) = a # str_split sep rest"
  by (induction a) auto

subsection \<open>Zone lookup\<close>

lemma public_zone_for_find:
  "public_zone_for zs c =
     map_option hz_Id (find (\<lambda>z. \<not> private_flag z \<and> hz_Name z = Some c) zs)"
  by (induction zs) auto

lemma candidates_step:
  assumes "2 \<le> length parts"
  shows "map (\<lambda>i. str_join ''.'' (drop i parts) @ ''.'') [0 ..< length parts - 1] =
         (str_join ''.'' parts @ ''.'') #
         map (\<lambda>i. str_join ''.'' (drop i (tl parts)) @ ''.'') [0 ..< length (tl parts) - 1]"
proof -
  obtain n where n: "length parts - 1 = Suc n"
    using assms by (cases "length parts - 1") auto
  have "[0 ..< length parts - 1] = 0 # map Suc [0 ..< n]"
    unfolding n by (simp add: upt_conv_Cons map_Suc_upt del: upt_Suc)
  moreover have "length (tl parts) - 1 = n"
    using n by simp
  ultimately show ?thesis
    by (simp add: drop_Suc comp_def)
qed

lemma public_zone_while_candidates:
  "public_zone_while zones parts =
     longest_public_match zones
       (map (\<lambda>i. str_join ''.'' (drop i parts) @ ''.'') [0 ..< length parts - 1])"
proof (induction zones parts rule: public_zone_while.induct)
  case (1 zones parts)
  show ?case
  proof (cases "2 \<le> length parts")
    case True
    show ?thesis
      using True "1.IH"
      by (subst public_zone_while.simps, subst candidates_step [OF True])
         (auto simp: public_zone_for_find split: option.splits)
  next
    case False
    then have "length parts - 1 = 0"
      by simp
    with False show ?thesis
      by (subst public_zone_while.simps) simp
  qed
qed

lemma get_public_zone_id_refines:
  "get_public_zone_id r53 (Some zn) = longest_public_match (hosted r53) (zone_candidates zn)"
  by (cases "zn = []")
     (simp_all add: get_public_zone_id_def hosted_def zone_candidates_def Let_def
        public_zone_while_candidates)

lemma longest_public_match_none:
  "(\<forall>c\<in>set cs. \<forall>z\<in>set zones. \<not> (\<not> private_flag z \<and> hz_Name z = Some c)) \<Longrightarrow>
   longest_public_match zones cs = None"
  by (induction cs) (auto simp: find_None_iff find_Some_iff split: option.splits)

text \<open>
  C5. The zone lookup goes longest suffix first over the labels: the candidates are the
  labels \<open>[i:]\<close> joined with dots plus a trailing dot, from the full name on and as long
  as two labels remain, and the first candidate naming a public zone decides. With the
  zones \<open>{"b.c.": id1, "a.b.c.": id2}\<close> the name \<open>x.a.b.c\<close> is found in \<open>id2\<close>, and
  when no candidate names a zone the lookup finds nothing.
\<close>

theorem public_zone_longest_suffix_first:
  "get_public_zone_id r53 (Some zn) = longest_public_match (hosted r53) (zone_candidates zn) \<and>
   get_public_zone_id example_public_r53 (Some ''x.a.b.c'') = Some ''id2'' \<and>
   ((\<forall>c\<in>set (zone_candidates zn). \<forall>z\<in>set (hosted r53).
        \<not> (\<not> private_flag z \<and> hz_Name z = Some c)) \<longrightarrow>
      get_public_zone_id r53 (Some zn) = None)"
proof (intro conjI impI)
  show "get_public_zone_id r53 (Some zn) = longest_public_match (hosted r53) (zone_candidates zn)"
    by (rule get_public_zone_id_refines)
  show "get_public_zone_id example_public_r53 (Some ''x.a.b.c'') = Some ''id2''"
    by (simp add: example_public_r53_def public_zone_def get_public_zone_id_def private_flag_def
          public_zone_while.simps)
  assume "\<forall>c\<in>set (zone_candidates zn). \<forall>z\<in>set (hosted r53).
        \<not> (\<not> private_flag z \<and> hz_Name z = Some c)"
  then show "get_public_zone_id r53 (Some zn) = None"
    by (simp only: get_public_zone_id_refines longest_public_match_none)
qed

theorem public_zone_longest_suffix_first_witness:
  "zone_candidates ''x.a.b.c'' = [''x.a.b.c.'', ''a.b.c.'', ''b.c.''] \<and>
   longest_public_match (hosted example_public_r53) (zone_candidates ''x.a.b.c'') = Some ''id2'' \<and>
   zone_candidates ''x.y.z'' = [''x.y.z.'', ''y.z.''] \<and>
   get_public_zone_id example_public_r53 (Some ''x.y.z'') = None"
  using public_zone_longest_suffix_first [of example_public_r53 "''x.a.b.c''"]
        public_zone_longest_suffix_first [of example_public_r53 "''x.y.z''"]
  by (simp add: zone_candidates_def hosted_def example_public_r53_def public_zone_def
        private_flag_def upt_rec)

lemma vpc_for_iff: "vpc_for vs v \<longleftrightarrow> Some v \<in> set (map zv_VPCId vs)"
  by (induction vs) auto

lemma private_zone_for_sound:
  "private_zone_for r53 v zs c = Inr (Some i) \<Longrightarrow>
   \<exists>z\<in>set zs. private_flag z \<and> hz_Name z = Some c \<and> hz_Id z = Some i \<and> attached r53 v z"
  by (induction zs)
     (auto simp: attached_def vpc_for_iff Let_def split: if_splits option.splits)

lemma private_zone_for_find:
  "\<forall>z\<in>set zs. hz_Id z \<noteq> None \<Longrightarrow>
   private_zone_for r53 v zs c =
     Inr (case find (\<lambda>z. private_flag z \<and> hz_Name z = Some c \<and> attached r53 v z) zs of
            None \<Rightarrow> None
          | Some z \<Rightarrow> hz_Id z)"
  by (induction zs) (auto simp: attached_def vpc_for_iff Let_def split: option.splits)

lemma private_zone_while_sound:
  "private_zone_while r53 v zs parts = Inr (Some i) \<Longrightarrow>
   \<exists>c\<in>set (map (\<lambda>i. str_join ''.'' (drop i parts) @ ''.'') [0 ..< length parts - 1]).
     \<exists>z\<in>set zs. private_flag z \<and> hz_Name z = Some c \<and> hz_Id z = Some i \<and> attached r53 v z"
proof (induction r53 v zs parts rule: private_zone_while.induct)
  case (1 r53 v zs parts)
  show ?case
  proof (cases "2 \<le> length parts")
    case True
    note step = candidates_step [OF True]
    show ?thesis
    proof (cases "private_zone_for r53 v zs (str_join ''.'' parts @ ''.'')")
      case (Inl e)
      with True "1.prems" show ?thesis
        by (subst (asm) private_zone_while.simps) simp
    next
      case (Inr r)
      show ?thesis
      proof (cases r)
        case None
        with True Inr "1.prems" have "private_zone_while r53 v zs (tl parts) = Inr (Some i)"
          by (subst (asm) private_zone_while.simps) simp
        from "1.IH" [OF True Inr None this] show ?thesis
          unfolding step by auto
      next
        case (Some j)
        with True Inr "1.prems" have "j = i"
          by (subst (asm) private_zone_while.simps) simp
        with Inr Some
        have "private_zone_for r53 v zs (str_join ''.'' parts @ ''.'') = Inr (Some i)"
          by simp
        from private_zone_for_sound [OF this] show ?thesis
          unfolding step by auto
      qed
    qed
  next
    case False
    with "1.prems" show ?thesis
      by (subst (asm) private_zone_while.simps) simp
  qed
qed

lemma private_zone_while_candidates:
  "\<forall>z\<in>set zs. hz_Id z \<noteq> None \<Longrightarrow>
   private_zone_while r53 v zs parts =
     Inr (longest_private_match r53 v zs
       (map (\<lambda>i. str_join ''.'' (drop i parts) @ ''.'') [0 ..< length parts - 1]))"
proof (induction r53 v zs parts rule: private_zone_while.induct)
  case (1 r53 v zs parts)
  show ?case
  proof (cases "2 \<le> length parts")
    case True
    note step = candidates_step [OF True]
    note pf = private_zone_for_find [OF "1.prems", of r53 v "str_join ''.'' parts @ ''.''"]
    show ?thesis
    proof (cases "find (\<lambda>z. private_flag z \<and> hz_Name z = Some (str_join ''.'' parts @ ''.'')
                          \<and> attached r53 v z) zs")
      case None
      with pf have p: "private_zone_for r53 v zs (str_join ''.'' parts @ ''.'') = Inr None"
        by simp
      from "1.IH" [OF True p refl "1.prems"] True p None show ?thesis
        by (subst private_zone_while.simps, subst step) simp
    next
      case (Some z)
      then have "attached r53 v z"
        by (auto simp: find_Some_iff)
      then obtain j where j: "hz_Id z = Some j"
        by (auto simp: attached_def split: option.splits)
      with pf Some
      have p: "private_zone_for r53 v zs (str_join ''.'' parts @ ''.'') = Inr (Some j)"
        by simp
      with True Some j show ?thesis
        by (subst private_zone_while.simps, subst step) simp
    qed
  next
    case False
    then have "length parts - 1 = 0"
      by simp
    with False show ?thesis
      by (subst private_zone_while.simps) simp
  qed
qed

text \<open>
  C6. In a private zone lookup for the network \<open>v\<close>, a zone identifier is returned
  only for a private zone that is named by a candidate and whose attachments include
  \<open>v\<close>, and the identifier of a zone that is not attached is never returned; a zone with
  the right name that is not attached is passed over, and the scan goes on with the other
  zones of that depth and then with the shorter candidates: when every zone of the catalog
  has an identifier, the result is the first attached zone of the first candidate that
  has one.
\<close>

theorem private_zone_requires_attachment:
  "(get_private_zone_id r53 v region (Some zn) = Inr (Some i) \<longrightarrow>
      (\<exists>c\<in>set (zone_candidates zn). \<exists>z\<in>set (hosted r53).
         private_flag z \<and> hz_Name z = Some c \<and> hz_Id z = Some i \<and> attached r53 v z)) \<and>
   (hz_Id unattached = Some i \<and> \<not> attached r53 v unattached \<longrightarrow>
      get_private_zone_id r53 v region (Some zn) \<noteq> Inr (Some i)) \<and>
   ((\<forall>z\<in>set (hosted r53). hz_Id z \<noteq> None) \<and> zn \<noteq> ''{}.compute.internal'' \<longrightarrow>
      get_private_zone_id r53 v region (Some zn) =
        Inr (longest_private_match r53 v (hosted r53) (zone_candidates zn)))"
proof (intro conjI impI)
  assume "get_private_zone_id r53 v region (Some zn) = Inr (Some i)"
  then have "private_zone_while r53 v (hosted r53) (str_split CHR ''.'' zn) = Inr (Some i)"
    by (simp add: get_private_zone_id_def hosted_def Let_def split: if_splits)
  from private_zone_while_sound [OF this]
  show "\<exists>c\<in>set (zone_candidates zn). \<exists>z\<in>set (hosted r53).
         private_flag z \<and> hz_Name z = Some c \<and> hz_Id z = Some i \<and> attached r53 v z"
    by (simp add: zone_candidates_def Let_def)
next
  assume u: "hz_Id unattached = Some i \<and> \<not> attached r53 v unattached"
  show "get_private_zone_id r53 v region (Some zn) \<noteq> Inr (Some i)"
  proof
    assume "get_private_zone_id r53 v region (Some zn) = Inr (Some i)"
    then have "private_zone_while r53 v (hosted r53) (str_split CHR ''.'' zn) = Inr (Some i)"
      by (simp add: get_private_zone_id_def hosted_def Let_def split: if_splits)
    from private_zone_while_sound [OF this]
    obtain z where z: "hz_Id z = Some i" and az: "attached r53 v z"
      by auto
    from u have "hz_Id unattached = Some i" and na: "\<not> attached r53 v unattached"
      by simp_all
    with z have "attached r53 v z = attached r53 v unattached"
      by (simp add: attached_def)
    with az na show False
      by simp
  qed
next
  assume a: "(\<forall>z\<in>set (hosted r53). hz_Id z \<noteq> None) \<and> zn \<noteq> ''{}.compute.internal''"
  then have ids: "\<forall>z\<in>set (hosted r53). hz_Id z \<noteq> None"
    by simp
  show "get_private_zone_id r53 v region (Some zn) =
        Inr (longest_private_match r53 v (hosted r53) (zone_candidates zn))"
  proof (cases "zn = []")
    case True
    then show ?thesis
      by (simp add: get_private_zone_id_def zone_candidates_def)
  next
    case False
    with a private_zone_while_candidates [OF ids, of r53 v "str_split CHR ''.'' zn"]
    show ?thesis
      by (simp add: get_private_zone_id_def zone_candidates_def Let_def hosted_def)
  qed
qed

theorem private_zone_requires_attachment_witness:
  "get_private_zone_id example_r53 ''vpc-1'' ''us-east-1'' (Some ''db.corp.internal'') =
     Inr (Some ''Z2'') \<and>
   zone_candidates ''db.corp.internal'' = [''db.corp.internal.'', ''corp.internal.''] \<and>
   \<not> attached example_r53 ''vpc-1'' (private_zone ''Z0'' ''db.corp.internal.'') \<and>
   \<not> attached example_r53 ''vpc-1'' (private_zone ''Z1'' ''corp.internal.'') \<and>
   attached example_r53 ''vpc-1'' (private_zone ''Z2'' ''corp.internal.'')"
  using private_zone_requires_attachment
          [where ?r53.0 = example_r53 and v = "''vpc-1''" and region = "''us-east-1''"
             and zn = "''db.corp.internal''" and i = "''Z2''"
             and unattached = "private_zone ''Z1'' ''corp.internal.''"]
  by (simp add: zone_candidates_def hosted_def example_r53_def private_zone_def
        private_flag_def attached_def upt_rec)

subsection \<open>The DNS domain\<close>









subsection \<open>Tags\<close>

lemma tags_to_dict_step_dropped:
  "tag_Key t = None \<or> (tag_Values t = None \<and> tag_Value t = None) \<Longrightarrow>
   tags_to_dict_step t m = m"
  by (auto simp: tags_to_dict_step_def split: option.splits)

lemma fold_tags_to_dict_step_origin:
  "fold tags_to_dict_step ts m k = Some v \<Longrightarrow>
   m k = Some v \<or>
   (\<exists>t\<in>set ts. tag_Key t = Some k \<and>
      (tag_Values t = Some v \<or> (tag_Values t = None \<and> tag_Value t = Some v)))"
proof (induction ts arbitrary: m)
  case Nil
  then show ?case
    by simp
next
  case (Cons t ts)
  from Cons.prems have "fold tags_to_dict_step ts (tags_to_dict_step t m) k = Some v"
    by simp
  from Cons.IH [OF this] show ?case
    by (auto simp: tags_to_dict_step_def split: option.splits if_splits)
qed

text \<open>
  C8, as the claim states it, fails: a tag that carries a list under \<^verbatim>\<open>Values\<close> is
  stored with that list as its value, which is not a string.
\<close>

theorem tags_to_dict_list_value_counterexample:
  "tags_to_dict [\<lparr>tag_Key = Some ''Name'', tag_Value = None,
                 tag_Values = Some (StrList [''web1'', ''web2''])\<rparr>] ''Name'' =
     Some (StrList [''web1'', ''web2'']) \<and>
   \<not> string_valued (StrList [''web1'', ''web2''])"
  by (simp add: tags_to_dict_def tags_to_dict_step_def)

text \<open>
  C8, amended. For every input tag list, \<^verbatim>\<open>tags_to_dict\<close> produces a mapping from
  tag keys to the objects the entries carry: \<open>[{Key: "Name", Value: "web1"}]\<close> converts
  to \<open>{"Name": "web1"}\<close>; an entry without \<^verbatim>\<open>Key\<close>, or with neither
  \<^verbatim>\<open>Value\<close> nor \<^verbatim>\<open>Values\<close>, is dropped without error; every stored value is
  the \<^verbatim>\<open>Values\<close> object of an entry with that key, or its \<^verbatim>\<open>Value\<close> object when
  it has no \<^verbatim>\<open>Values\<close>; so every stored value is a string when no entry has
  \<^verbatim>\<open>Values\<close> and every \<^verbatim>\<open>Value\<close> is a string.
\<close>

theorem tags_to_dict_stores_value_or_values:
  "tags_to_dict [\<lparr>tag_Key = Some ''Name'', tag_Value = Some (Str ''web1''), tag_Values = None\<rparr>] =
     [''Name'' \<mapsto> Str ''web1''] \<and>
   (tag_Key t = None \<or> (tag_Values t = None \<and> tag_Value t = None) \<longrightarrow>
      tags_to_dict (ts @ t # us) = tags_to_dict (ts @ us)) \<and>
   (tags_to_dict ts k = Some v \<longrightarrow>
      (\<exists>t\<in>set ts. tag_Key t = Some k \<and>
         (tag_Values t = Some v \<or> (tag_Values t = None \<and> tag_Value t = Some v)))) \<and>
   ((\<forall>t\<in>set ts'. tag_Values t = None \<and> (\<forall>x. tag_Value t = Some x \<longrightarrow> string_valued x)) \<and>
    tags_to_dict ts' k = Some w \<longrightarrow> string_valued w)"
proof (intro conjI impI)
  show "tags_to_dict
          [\<lparr>tag_Key = Some ''Name'', tag_Value = Some (Str ''web1''), tag_Values = None\<rparr>] =
        [''Name'' \<mapsto> Str ''web1'']"
    by (simp add: tags_to_dict_def tags_to_dict_step_def)
next
  assume "tag_Key t = None \<or> (tag_Values t = None \<and> tag_Value t = None)"
  then show "tags_to_dict (ts @ t # us) = tags_to_dict (ts @ us)"
    by (simp add: tags_to_dict_def tags_to_dict_step_dropped)
next
  assume "tags_to_dict ts k = Some v"
  then show "\<exists>t\<in>set ts. tag_Key t = Some k \<and>
         (tag_Values t = Some v \<or> (tag_Values t = None \<and> tag_Value t = Some v))"
    using fold_tags_to_dict_step_origin [of ts Map.empty k v]
    by (simp add: tags_to_dict_def)
next
  assume "(\<forall>t\<in>set ts'. tag_Values t = None \<and> (\<forall>x. tag_Value t = Some x \<longrightarrow> string_valued x)) \<and>
    tags_to_dict ts' k = Some w"
  then show "string_valued w"
    using fold_tags_to_dict_step_origin [of ts' Map.empty k w]
    by (auto simp: tags_to_dict_def)
qed

theorem tags_to_dict_stores_value_or_values_witness:
  "tags_to_dict
     ([\<lparr>tag_Key = Some ''Name'', tag_Value = Some (Str ''web1''), tag_Values = None\<rparr>] @
      \<lparr>tag_Key = None, tag_Value = Some (Str ''lost''), tag_Values = None\<rparr> #
      [\<lparr>tag_Key = Some ''empty'', tag_Value = None, tag_Values = None\<rparr>]) ''Name'' =
     Some (Str ''web1'') \<and>
   string_valued (Str ''web1'') \<and>
   tags_to_dict
     [\<lparr>tag_Key = Some ''Name'', tag_Value = Some (Str ''web1''), tag_Values = None\<rparr>,
      \<lparr>tag_Key = Some ''empty'', tag_Value = None, tag_Values = None\<rparr>] ''empty'' = None"
  using tags_to_dict_stores_value_or_values
          [where t = "\<lparr>tag_Key = None, tag_Value = Some (Str ''lost''), tag_Values = None\<rparr>"
             and ts = "[\<lparr>tag_Key = Some ''Name'', tag_Value = Some (Str ''web1''),
                         tag_Values = None\<rparr>]"
             and us = "[\<lparr>tag_Key = Some ''empty'', tag_Value = None, tag_Values = None\<rparr>]"
             and ts' = "[\<lparr>tag_Key = Some ''Name'', tag_Value = Some (Str ''web1''),
                          tag_Values = None\<rparr>,
                         \<lparr>tag_Key = Some ''empty'', tag_Value = None, tag_Values = None\<rparr>]"
             and k = "''Name''" and v = "Str ''web1''" and w = "Str ''web1''"]
  by (simp add: tags_to_dict_def tags_to_dict_step_def)

subsection \<open>Registration\<close>

lemma get_hostname_none:
  "get_hostname env tags = None \<longleftrightarrow>
   tags (hostname_tag_of env tags) = None \<and> tags ''Name'' = None"
  by (simp add: get_hostname_def hostname_tag_of_def Let_def split: option.splits)

text \<open>
  C10. For an instance that is fetched with its private address and its network, and
  whose tags hold neither the hostname tag (the default one, or the one the account tag
  names) nor \<^verbatim>\<open>Name\<close>, \<^verbatim>\<open>register_host\<close> returns the empty list of records
  without raising: it logs one warning, submits no DNS change and resolves nothing
  further, whatever the DNS service and the network are.
\<close>

theorem register_host_without_hostname:
  assumes "describe_instances ec2_client instance_id = Some [r]"
    and "Instances r = Some [inst]"
    and "PrivateIpAddress inst = Some private_ip" and "private_ip \<noteq> []"
    and "VpcId inst = Some vpc_id" and "vpc_id \<noteq> []"
    and "tags = tags_to_dict (case Tags inst of None \<Rightarrow> [] | Some ts \<Rightarrow> ts)"
    and "tags (hostname_tag_of env tags) = None" and "tags ''Name'' = None"
  shows "register_host env r53 ec2_client region instance_id =
           (Inr (RecordList []),
            \<lparr>records = [], submitted = [],
             logged = [(WARN, ''no hostname is defined for the instance - skipping registration'')]\<rparr>)"
proof -
  have "get_hostname env tags = None"
    using assms(8,9) by (simp add: get_hostname_none)
  then show ?thesis
    using assms(1-7) by (simp add: register_host_def register_host_instance_def Let_def)
qed

theorem register_host_without_hostname_witness:
  "register_host Map.empty example_r53 (example_ec2 [ec2_tag ''team'' ''ops'']) ''us-east-1''
     ''i-1'' =
     (Inr (RecordList []),
      \<lparr>records = [], submitted = [],
       logged = [(WARN, ''no hostname is defined for the instance - skipping registration'')]\<rparr>)"
  using register_host_without_hostname
          [where ec2_client = "example_ec2 [ec2_tag ''team'' ''ops'']" and instance_id = "''i-1''"
             and r = "\<lparr>Instances =
                         Some [\<lparr>PublicIpAddress = None, PrivateIpAddress = Some ''10.1.2.3'',
                                VpcId = Some ''vpc-1'',
                                Tags = Some [ec2_tag ''team'' ''ops'']\<rparr>]\<rparr>"
             and inst = "\<lparr>PublicIpAddress = None, PrivateIpAddress = Some ''10.1.2.3'',
                           VpcId = Some ''vpc-1'', Tags = Some [ec2_tag ''team'' ''ops'']\<rparr>"
             and private_ip = "''10.1.2.3''" and vpc_id = "''vpc-1''"
             and tags = "tags_to_dict [ec2_tag ''team'' ''ops'']" and env = Map.empty
             and ?r53.0 = example_r53 and region = "''us-east-1''"]
  by (simp add: example_ec2_def ec2_tag_def tags_to_dict_def tags_to_dict_step_def
        hostname_tag_of_def get_setting_def)

text \<open>
  C1 on the code. For the raw hostname \<open>web1.corp.internal\<close> the resolution gives the
  hostname \<open>web1\<close> and the domain \<open>corp.internal\<close>, and the FQDN \<open>web1\<close>, which is
  not the hostname, a dot and the domain; \<^verbatim>\<open>register_host\<close> then submits the A
  record under the name \<open>web1.\<close>. For the bare hostname \<open>web1\<close> with the domain
  \<open>corp.internal\<close> the triple is the one the claim states.
\<close>

theorem identity_of_dotted_hostname:
  "identity_of ''web1.corp.internal'' ''us-east-1.compute.internal'' =
     (''web1'', ''corp.internal'', ''web1'') \<and>
   ''web1'' \<noteq> ''web1'' @ ''.'' @ ''corp.internal'' \<and>
   identity_of ''web1'' ''corp.internal'' = (''web1'', ''corp.internal'', ''web1.corp.internal'') \<and>
   submitted (snd (register_host Map.empty example_r53
       (example_ec2 [ec2_tag ''Name'' ''web1.corp.internal'']) ''us-east-1'' ''i-1'')) =
     [\<lparr>cr_HostedZoneId = ''Z2'', cr_Action = ''UPSERT'', cr_Name = ''web1.'', cr_Type = ''A'',
       cr_TTL = 300, cr_Value = ''10.1.2.3''\<rparr>]"
  by (simp add: private_zone_def example_r53_def ec2_tag_def example_ec2_def
        register_host_def register_host_instance_def register_host_records_def
        get_aliases_def tags_to_dict_def tags_to_dict_step_def get_hostname_def get_setting_def
        get_dns_domain_def get_dhcp_options_domain_def identity_of_def ptr_names_def
        get_private_zone_id_def private_flag_def append_and_upsert_def change_record_def
        private_zone_while.simps Let_def)

text \<open>
  C2 on the code. An instance named \<open>web1\<close> with the private alias \<open>db\<close>: three
  upserts are submitted and \<^verbatim>\<open>records\<close> holds the three entries, and
  \<^verbatim>\<open>register_host\<close> returns the integer \<open>0\<close>, not the list.
\<close>

theorem register_host_returns_zero:
  "register_host Map.empty example_r53
     (example_ec2 [ec2_tag ''Name'' ''web1'',
        ec2_tag ''fn.aws.joshhogle.com/update-route53-host-records/aliases/private'' ''db''])
     ''us-east-1'' ''i-1'' =
   (Inr (IntResult 0),
    \<lparr>records =
       [\<lparr>rec_zone_id = ''Z2'', rec_type = ''A'', rec_name = ''web1.corp.internal'',
         rec_data = ''10.1.2.3''\<rparr>,
        \<lparr>rec_zone_id = ''Z2'', rec_type = ''A'', rec_name = ''db.corp.internal'',
         rec_data = ''10.1.2.3''\<rparr>,
        \<lparr>rec_zone_id = ''Z4'', rec_type = ''PTR'', rec_name = ''3.2.1.10.in-addr.arpa'',
         rec_data = ''web1.corp.internal.''\<rparr>],
     submitted =
       [\<lparr>cr_HostedZoneId = ''Z2'', cr_Action = ''UPSERT'', cr_Name = ''web1.corp.internal.'',
         cr_Type = ''A'', cr_TTL = 300, cr_Value = ''10.1.2.3''\<rparr>,
        \<lparr>cr_HostedZoneId = ''Z2'', cr_Action = ''UPSERT'', cr_Name = ''db.corp.internal.'',
         cr_Type = ''A'', cr_TTL = 300, cr_Value = ''10.1.2.3''\<rparr>,
        \<lparr>cr_HostedZoneId = ''Z4'', cr_Action = ''UPSERT'', cr_Name = ''3.2.1.10.in-addr.arpa.'',
         cr_Type = ''PTR'', cr_TTL = 300, cr_Value = ''web1.corp.internal.''\<rparr>],
     logged = [(WARN, ''   no hostname found for {} alias {} - using alias as hostname'')]\<rparr>)"
  by (simp add: private_zone_def example_r53_def ec2_tag_def example_ec2_def
        register_host_def register_host_instance_def register_host_records_def
        get_aliases_def tags_to_dict_def tags_to_dict_step_def get_hostname_def get_setting_def
        get_dns_domain_def get_dhcp_options_domain_def identity_of_def ptr_names_def
        get_private_zone_id_def private_flag_def append_and_upsert_def change_record_def
        private_zone_while.simps str_strip_def is_space_def Let_def)

text \<open>
  C3 on the code. In the region \<open>us-east-1\<close> the lookup of
  \<open>us-east-1.compute.internal\<close> is not skipped: the catalog is scanned and the
  attached private zone \<open>compute.internal.\<close> is returned. Only the unformatted name
  \<open>{}.compute.internal\<close> is skipped, in every catalog.
\<close>

theorem default_private_domain_is_looked_up:
  "get_private_zone_id example_r53 ''vpc-1'' ''us-east-1'' (Some ''us-east-1.compute.internal'') =
     Inr (Some ''Z3'') \<and>
   get_private_zone_id r53 vpc_id region (Some ''{}.compute.internal'') = Inr None"
  by (simp add: private_zone_def example_r53_def get_private_zone_id_def private_flag_def
        private_zone_while.simps)

text \<open>
  C4 on the code. An instance whose only tag is \<open>Name = web1\<close>: the canonical A record
  is submitted, then the private aliases are read and \<^verbatim>\<open>register_host\<close> raises
  \<^verbatim>\<open>AttributeError\<close>; no PTR record is submitted.
\<close>

theorem register_host_without_aliases_raises:
  "register_host Map.empty example_r53 (example_ec2 [ec2_tag ''Name'' ''web1'']) ''us-east-1''
     ''i-1'' =
   (Inl (AttributeError ''list object has no attribute split''),
    \<lparr>records =
       [\<lparr>rec_zone_id = ''Z2'', rec_type = ''A'', rec_name = ''web1.corp.internal'',
         rec_data = ''10.1.2.3''\<rparr>],
     submitted =
       [\<lparr>cr_HostedZoneId = ''Z2'', cr_Action = ''UPSERT'', cr_Name = ''web1.corp.internal.'',
         cr_Type = ''A'', cr_TTL = 300, cr_Value = ''10.1.2.3''\<rparr>],
     logged = []\<rparr>)"
  by (simp add: private_zone_def example_r53_def ec2_tag_def example_ec2_def
        register_host_def register_host_instance_def register_host_records_def
        get_aliases_def tags_to_dict_def tags_to_dict_step_def get_hostname_def get_setting_def
        get_dns_domain_def get_dhcp_options_domain_def identity_of_def ptr_names_def
        get_private_zone_id_def private_flag_def append_and_upsert_def change_record_def
        private_zone_while.simps Let_def)

subsection \<open>PTR names\<close>

lemma ptr_names_octets:
  assumes "CHR ''.'' \<notin> set a" "CHR ''.'' \<notin> set b" "CHR ''.'' \<notin> set c" "CHR ''.'' \<notin> set d"
  shows "ptr_names (a @ ''.'' @ b @ ''.'' @ c @ ''.'' @ d) =
           Inr (d @ ''.'' @ c @ ''.'' @ b @ ''.'' @ a @ ''.in-addr.arpa'',
                c @ ''.'' @ b @ ''.'' @ a @ ''.in-addr.arpa'')"
proof -
  have "str_split CHR ''.'' (a @ ''.'' @ b @ ''.'' @ c @ ''.'' @ d) = [a, b, c, d]"
    using assms by (simp add: str_split_append str_split_no_sep)
  then show ?thesis
    by (simp add: ptr_names_def Let_def)
qed

lemma register_aliases_no_ptr:
  "filter (\<lambda>q. cr_Type q = ''PTR'') (submitted (register_aliases r53 ip aliases st)) =
   filter (\<lambda>q. cr_Type q = ''PTR'') (submitted st)"
  by (induction aliases arbitrary: st)
     (auto simp: append_and_upsert_def change_record_def Let_def split: option.splits)

lemma append_and_upsert_a_no_ptr:
  "filter (\<lambda>q. cr_Type q = ''PTR'') (submitted (append_and_upsert r53 z ''A'' name ip st)) =
   filter (\<lambda>q. cr_Type q = ''PTR'') (submitted st)"
  by (simp add: append_and_upsert_def change_record_def Let_def)

lemma append_and_upsert_ptr:
  "filter (\<lambda>q. cr_Type q = ''PTR'')
     (submitted (append_and_upsert r53 z ''PTR'' ptr_record (fqdn @ ''.'') st)) =
   filter (\<lambda>q. cr_Type q = ''PTR'') (submitted st) @ [ptr_upsert z ptr_record fqdn]"
  by (simp add: append_and_upsert_def change_record_def ptr_upsert_def Let_def)

lemma submitted_logged_update [simp]: "submitted (st\<lparr>logged := lg\<rparr>) = submitted st"
  by simp

lemma register_host_records_ptr:
  "\<exists>X. filter (\<lambda>q. cr_Type q = ''PTR'')
          (submitted (snd (register_host_records env r53 vpc_id region instance_tags public_ip
             private_ip dns_domain fqdn ptr_record arpa_zone st0))) =
        filter (\<lambda>q. cr_Type q = ''PTR'') (submitted st0) @ X \<and>
        (X = [] \<or>
         (\<exists>z. X = [ptr_upsert z ptr_record fqdn] \<and>
              get_private_zone_id r53 vpc_id region (Some arpa_zone) = Inr (Some z))) \<and>
        ((\<exists>ret. fst (register_host_records env r53 vpc_id region instance_tags public_ip
             private_ip dns_domain fqdn ptr_record arpa_zone st0) = Inr ret) \<longrightarrow>
         X = (case get_private_zone_id r53 vpc_id region (Some arpa_zone) of
                Inr (Some z) \<Rightarrow> [ptr_upsert z ptr_record fqdn]
              | _ \<Rightarrow> []))"
  (is "\<exists>X. ?F (snd ?res) = ?F st0 @ X \<and> ?shape X \<and> ?full X")
proof (cases "get_private_zone_id r53 vpc_id region (Some dns_domain)")
  case (Inl e)
  then have "?res = (Inl e, st0)"
    by (simp add: register_host_records_def)
  then show ?thesis
    by (intro exI [of _ "[]"]) simp
next
  case zone: (Inr private_zone_id)
  define st1 where
    "st1 = (case private_zone_id of
              None \<Rightarrow> st0
            | Some z \<Rightarrow> append_and_upsert r53 z ''A'' fqdn private_ip st0)"
  have f1: "?F st1 = ?F st0"
    by (cases private_zone_id) (simp_all add: st1_def append_and_upsert_a_no_ptr)
  define aliases_tag where
    "aliases_tag = (case instance_tags (get_setting env Aliases_tag_name_account_tag) of
                      None \<Rightarrow> get_setting env Default_aliases_tag_name
                    | Some t \<Rightarrow> t)"
  obtain ra lg where ga:
    "get_aliases r53 vpc_id region instance_tags aliases_tag ''private'' dns_domain = (ra, lg)"
    by (cases "get_aliases r53 vpc_id region instance_tags aliases_tag ''private'' dns_domain")
  show ?thesis
  proof (cases ra)
    case (Inl e)
    with zone ga have "?res = (Inl e, st1\<lparr>logged := logged st1 @ lg\<rparr>)"
      unfolding st1_def aliases_tag_def
      by (simp add: register_host_records_def Let_def)
    with f1 show ?thesis
      by (intro exI [of _ "[]"]) simp
  next
    case private_aliases: (Inr aliases)
    define st2 where
      "st2 = register_aliases r53 private_ip aliases (st1\<lparr>logged := logged st1 @ lg\<rparr>)"
    have f2: "?F st2 = ?F st0"
      using f1 by (simp add: st2_def register_aliases_no_ptr)
    show ?thesis
    proof (cases "get_private_zone_id r53 vpc_id region (Some arpa_zone)")
      case (Inl e)
      with zone ga private_aliases have "?res = (Inl e, st2)"
        unfolding st2_def st1_def aliases_tag_def
        by (simp add: register_host_records_def Let_def)
      with f2 show ?thesis
        by (intro exI [of _ "[]"]) simp
    next
      case arpa: (Inr arpa_zone_id)
      define X where
        "X = (case arpa_zone_id of None \<Rightarrow> [] | Some z \<Rightarrow> [ptr_upsert z ptr_record fqdn])"
      define st3 where
        "st3 = (case arpa_zone_id of
                  None \<Rightarrow> st2
                | Some z \<Rightarrow> append_and_upsert r53 z ''PTR'' ptr_record (fqdn @ ''.'') st2)"
      have f3: "?F st3 = ?F st0 @ X"
        using f2 by (cases arpa_zone_id) (simp_all add: st3_def X_def append_and_upsert_ptr)
      have shape: "?shape X"
        using arpa by (cases arpa_zone_id) (simp_all add: X_def)
      have full: "?full X"
        using arpa by (cases arpa_zone_id) (simp_all add: X_def)
      have "?F (snd ?res) = ?F st3"
      proof (cases public_ip)
        case None
        with zone ga private_aliases arpa have "?res = (Inr (IntResult 0), st3)"
          unfolding st3_def st2_def st1_def aliases_tag_def
          by (simp add: register_host_records_def Let_def)
        then show ?thesis
          by simp
      next
        case (Some pip)
        obtain rb lg' where gb:
          "get_aliases r53 vpc_id region instance_tags aliases_tag ''public'' dns_domain =
             (rb, lg')"
          by (cases "get_aliases r53 vpc_id region instance_tags aliases_tag ''public''
                       dns_domain")
        show ?thesis
        proof (cases rb)
          case (Inl e)
          with zone ga private_aliases arpa Some gb
          have "?res = (Inl e, st3\<lparr>logged := logged st3 @ lg'\<rparr>)"
            unfolding st3_def st2_def st1_def aliases_tag_def
            by (simp add: register_host_records_def Let_def)
          then show ?thesis
            by simp
        next
          case (Inr public_aliases)
          with zone ga private_aliases arpa Some gb
          have "?res = (Inr (IntResult 0),
                        register_aliases r53 pip public_aliases
                          (st3\<lparr>logged := logged st3 @ lg'\<rparr>))"
            unfolding st3_def st2_def st1_def aliases_tag_def
            by (simp add: register_host_records_def Let_def)
          then show ?thesis
            by (simp add: register_aliases_no_ptr)
        qed
      qed
      with f3 shape full show ?thesis
        by (intro exI [of _ X]) simp
    qed
  qed
qed

lemma register_host_instance_ptr:
  assumes names: "ptr_names private_ip = Inr (ptr_record, arpa_zone)"
    and host: "get_hostname env (tags_to_dict (case Tags inst of None \<Rightarrow> [] | Some ts \<Rightarrow> ts)) =
                 Some hostname"
  shows "\<exists>X fqdn.
           filter (\<lambda>q. cr_Type q = ''PTR'')
             (submitted (snd (register_host_instance env ec2_client r53 region inst public_ip
                private_ip vpc_id))) = X \<and>
           (X = [] \<or>
            (\<exists>z. X = [ptr_upsert z ptr_record fqdn] \<and>
                 get_private_zone_id r53 vpc_id region (Some arpa_zone) = Inr (Some z))) \<and>
           ((\<exists>ret. fst (register_host_instance env ec2_client r53 region inst public_ip
                private_ip vpc_id) = Inr ret) \<longrightarrow>
            X = (case get_private_zone_id r53 vpc_id region (Some arpa_zone) of
                   Inr (Some z) \<Rightarrow> [ptr_upsert z ptr_record fqdn]
                 | _ \<Rightarrow> []))"
proof -
  define instance_tags where
    "instance_tags = tags_to_dict (case Tags inst of None \<Rightarrow> [] | Some ts \<Rightarrow> ts)"
  define resolved where
    "resolved = (if length (str_split CHR ''.'' hostname) = 1
                 then get_dns_domain env ec2_client vpc_id region instance_tags
                 else (Inr [], []))"
  obtain rd lg where rs: "resolved = (rd, lg)"
    by (cases resolved)
  show ?thesis
  proof (cases rd)
    case (Inl e)
    with rs host
    have "register_host_instance env ec2_client r53 region inst public_ip private_ip vpc_id =
            (Inl e, \<lparr>records = [], submitted = [], logged = lg\<rparr>)"
      unfolding resolved_def instance_tags_def
      by (simp add: register_host_instance_def Let_def)
    then show ?thesis
      by simp
  next
    case (Inr default_dns_domain)
    obtain hostname' dns_domain fqdn where
      idt: "identity_of hostname default_dns_domain = (hostname', dns_domain, fqdn)"
      by (cases "identity_of hostname default_dns_domain") auto
    define st0 where "st0 = \<lparr>records = [], submitted = [], logged = lg\<rparr>"
    from Inr rs host idt names
    have eq: "register_host_instance env ec2_client r53 region inst public_ip private_ip vpc_id =
            register_host_records env r53 vpc_id region instance_tags public_ip private_ip
              dns_domain fqdn ptr_record arpa_zone st0"
      unfolding resolved_def instance_tags_def st0_def
      by (simp add: register_host_instance_def Let_def)
    from register_host_records_ptr
           [of env r53 vpc_id region instance_tags public_ip private_ip dns_domain fqdn
               ptr_record arpa_zone st0]
    obtain X where
      "filter (\<lambda>q. cr_Type q = ''PTR'')
          (submitted (snd (register_host_records env r53 vpc_id region instance_tags public_ip
             private_ip dns_domain fqdn ptr_record arpa_zone st0))) =
        filter (\<lambda>q. cr_Type q = ''PTR'') (submitted st0) @ X"
      and "X = [] \<or>
         (\<exists>z. X = [ptr_upsert z ptr_record fqdn] \<and>
              get_private_zone_id r53 vpc_id region (Some arpa_zone) = Inr (Some z))"
      and "(\<exists>ret. fst (register_host_records env r53 vpc_id region instance_tags public_ip
             private_ip dns_domain fqdn ptr_record arpa_zone st0) = Inr ret) \<longrightarrow>
         X = (case get_private_zone_id r53 vpc_id region (Some arpa_zone) of
                Inr (Some z) \<Rightarrow> [ptr_upsert z ptr_record fqdn]
              | _ \<Rightarrow> [])"
      by blast
    then show ?thesis
      unfolding eq by (intro exI [of _ X] exI [of _ fqdn]) (simp add: st0_def)
  qed
qed

text \<open>
  C9. For a private address written as four dot-separated octets \<open>a.b.c.d\<close> (octets
  without a dot), the PTR record name \<^verbatim>\<open>register_host\<close> derives is
  \<open>d.c.b.a.in-addr.arpa\<close> and the reverse zone name is \<open>c.b.a.in-addr.arpa\<close>; for
  \<open>10.1.2.3\<close> these are \<open>3.2.1.10.in-addr.arpa\<close> and \<open>2.1.10.in-addr.arpa\<close>. On
  an instance with a hostname, every PTR submission of \<^verbatim>\<open>register_host\<close> is made
  under that name (with the trailing dot) in the zone found for that reverse zone name,
  and a run that returns has submitted exactly this PTR record when the lookup of the
  reverse zone name finds a zone, and none otherwise.
\<close>

theorem register_host_ptr_names:
  assumes "CHR ''.'' \<notin> set a" "CHR ''.'' \<notin> set b" "CHR ''.'' \<notin> set c" "CHR ''.'' \<notin> set d"
    and "private_ip = a @ ''.'' @ b @ ''.'' @ c @ ''.'' @ d"
    and "describe_instances ec2_client instance_id = Some [r]"
    and "Instances r = Some [inst]"
    and "PrivateIpAddress inst = Some private_ip"
    and "VpcId inst = Some vpc_id" and "vpc_id \<noteq> []"
    and "get_hostname env (tags_to_dict (case Tags inst of None \<Rightarrow> [] | Some ts \<Rightarrow> ts)) =
           Some hostname"
  shows "ptr_names private_ip =
           Inr (d @ ''.'' @ c @ ''.'' @ b @ ''.'' @ a @ ''.in-addr.arpa'',
                c @ ''.'' @ b @ ''.'' @ a @ ''.in-addr.arpa'') \<and>
         (\<forall>q \<in> set (submitted (snd (register_host env r53 ec2_client region instance_id))).
            cr_Type q = ''PTR'' \<longrightarrow>
              cr_Name q = d @ ''.'' @ c @ ''.'' @ b @ ''.'' @ a @ ''.in-addr.arpa'' @ ''.'' \<and>
              get_private_zone_id r53 vpc_id region
                (Some (c @ ''.'' @ b @ ''.'' @ a @ ''.in-addr.arpa'')) =
                Inr (Some (cr_HostedZoneId q))) \<and>
         ((\<exists>ret. fst (register_host env r53 ec2_client region instance_id) = Inr ret) \<longrightarrow>
            map (\<lambda>q. (cr_HostedZoneId q, cr_Name q))
              (filter (\<lambda>q. cr_Type q = ''PTR'')
                 (submitted (snd (register_host env r53 ec2_client region instance_id)))) =
            (case get_private_zone_id r53 vpc_id region
                    (Some (c @ ''.'' @ b @ ''.'' @ a @ ''.in-addr.arpa'')) of
               Inr (Some z) \<Rightarrow>
                 [(z, d @ ''.'' @ c @ ''.'' @ b @ ''.'' @ a @ ''.in-addr.arpa'' @ ''.'')]
             | _ \<Rightarrow> []))"
proof -
  define ptr_record where
    "ptr_record = d @ ''.'' @ c @ ''.'' @ b @ ''.'' @ a @ ''.in-addr.arpa''"
  define arpa_zone where "arpa_zone = c @ ''.'' @ b @ ''.'' @ a @ ''.in-addr.arpa''"
  have names: "ptr_names private_ip = Inr (ptr_record, arpa_zone)"
    unfolding assms(5) ptr_record_def arpa_zone_def
    using assms(1-4) by (rule ptr_names_octets)
  define public_ip where
    "public_ip = (case PublicIpAddress inst of
                    None \<Rightarrow> None
                  | Some x \<Rightarrow> if x = [] then None else Some x)"
  have "private_ip \<noteq> []"
    by (simp add: assms(5))
  with assms(6-10)
  have eq: "register_host env r53 ec2_client region instance_id =
          register_host_instance env ec2_client r53 region inst public_ip private_ip vpc_id"
    unfolding public_ip_def by (simp add: register_host_def Let_def)
  from register_host_instance_ptr [OF names assms(11),
         of ec2_client r53 region public_ip vpc_id]
  obtain X fqdn where
    sub: "filter (\<lambda>q. cr_Type q = ''PTR'')
            (submitted (snd (register_host env r53 ec2_client region instance_id))) = X"
    and shape: "X = [] \<or>
            (\<exists>z. X = [ptr_upsert z ptr_record fqdn] \<and>
                 get_private_zone_id r53 vpc_id region (Some arpa_zone) = Inr (Some z))"
    and full: "(\<exists>ret. fst (register_host env r53 ec2_client region instance_id) = Inr ret) \<longrightarrow>
            X = (case get_private_zone_id r53 vpc_id region (Some arpa_zone) of
                   Inr (Some z) \<Rightarrow> [ptr_upsert z ptr_record fqdn]
                 | _ \<Rightarrow> [])"
    unfolding eq by blast
  have every: "\<forall>q \<in> set (submitted (snd (register_host env r53 ec2_client region instance_id))).
            cr_Type q = ''PTR'' \<longrightarrow>
              cr_Name q = ptr_record @ ''.'' \<and>
              get_private_zone_id r53 vpc_id region (Some arpa_zone) =
                Inr (Some (cr_HostedZoneId q))"
  proof (intro ballI impI)
    fix q
    assume "q \<in> set (submitted (snd (register_host env r53 ec2_client region instance_id)))"
      and "cr_Type q = ''PTR''"
    then have "q \<in> set X"
      unfolding sub [symmetric] by simp
    with shape show "cr_Name q = ptr_record @ ''.'' \<and>
              get_private_zone_id r53 vpc_id region (Some arpa_zone) =
                Inr (Some (cr_HostedZoneId q))"
      by (auto simp: ptr_upsert_def)
  qed
  have returned: "(\<exists>ret. fst (register_host env r53 ec2_client region instance_id) = Inr ret) \<longrightarrow>
            map (\<lambda>q. (cr_HostedZoneId q, cr_Name q))
              (filter (\<lambda>q. cr_Type q = ''PTR'')
                 (submitted (snd (register_host env r53 ec2_client region instance_id)))) =
            (case get_private_zone_id r53 vpc_id region (Some arpa_zone) of
               Inr (Some z) \<Rightarrow> [(z, ptr_record @ ''.'')]
             | _ \<Rightarrow> [])"
    using full unfolding sub
    by (auto simp: ptr_upsert_def split: sum.splits option.splits)
  from names every returned show ?thesis
    unfolding ptr_record_def arpa_zone_def
    by (auto split: sum.splits option.splits)
qed

theorem register_host_ptr_names_witness:
  "ptr_names ''10.1.2.3'' = Inr (''3.2.1.10.in-addr.arpa'', ''2.1.10.in-addr.arpa'') \<and>
   map (\<lambda>q. (cr_HostedZoneId q, cr_Name q))
     (filter (\<lambda>q. cr_Type q = ''PTR'')
        (submitted (snd (register_host Map.empty example_r53
           (example_ec2 [ec2_tag ''Name'' ''web1'',
              ec2_tag ''fn.aws.joshhogle.com/update-route53-host-records/aliases/private''
                ''db''])
           ''us-east-1'' ''i-1'')))) =
     [(''Z4'', ''3.2.1.10.in-addr.arpa.'')]"
  using register_host_ptr_names
          [where a = "''10''" and b = "''1''" and c = "''2''" and d = "''3''"
             and private_ip = "''10.1.2.3''"
             and ec2_client = "example_ec2 [ec2_tag ''Name'' ''web1'',
                 ec2_tag ''fn.aws.joshhogle.com/update-route53-host-records/aliases/private''
                   ''db'']"
             and instance_id = "''i-1''"
             and r = "\<lparr>Instances =
                         Some [\<lparr>PublicIpAddress = None, PrivateIpAddress = Some ''10.1.2.3'',
                                VpcId = Some ''vpc-1'',
                                Tags = Some [ec2_tag ''Name'' ''web1'',
                 ec2_tag ''fn.aws.joshhogle.com/update-route53-host-records/aliases/private''
                   ''db'']\<rparr>]\<rparr>"
             and inst = "\<lparr>PublicIpAddress = None, PrivateIpAddress = Some ''10.1.2.3'',
                           VpcId = Some ''vpc-1'',
                           Tags = Some [ec2_tag ''Name'' ''web1'',
                 ec2_tag ''fn.aws.joshhogle.com/update-route53-host-records/aliases/private''
                   ''db'']\<rparr>"
             and vpc_id = "''vpc-1''" and env = Map.empty and hostname = "''web1''"
             and ?r53.0 = example_r53 and region = "''us-east-1''"]
  by (simp add: private_zone_def example_r53_def ec2_tag_def example_ec2_def
        register_host_def register_host_instance_def register_host_records_def
        get_aliases_def tags_to_dict_def tags_to_dict_step_def get_hostname_def get_setting_def
        get_dns_domain_def get_dhcp_options_domain_def identity_of_def ptr_names_def
        get_private_zone_id_def private_flag_def append_and_upsert_def change_record_def
        private_zone_while.simps str_strip_def is_space_def Let_def)

end
